theory Spec2Isabelle
  imports Main "HOL-Library.Sublist"
begin

section \<open>The dashboard page of AgenticAI Lab\<close>

text \<open>
  The dashboard is the React component \<open>DashboardPage\<close> (the TypeScript listing in
  \<^verbatim>\<open>PROJECT_STATUS.md\<close>, lines 184 to 481). Its state is five \<open>useState\<close> cells; its
  operations are \<open>fetchData\<close> (run once, by the mount effect), \<open>createJob\<close> (the click
  handler of the create button), the callback that \<open>createJob\<close> hands to \<open>setTimeout\<close>,
  the two status projections \<open>getStatusIcon\<close> and \<open>getStatusBadge\<close>, and the render
  function itself.
\<close>

subsection \<open>Strings\<close>

text \<open>
  A JavaScript string is a sequence of UTF-16 code units; \<open>length\<close>, \<open>substring\<close> and
  \<open>trim\<close> count and inspect code units. A code unit is a natural number (below 65536 in
  any string the program can hold). \<open>str\<close> reads an ASCII literal of the source.
\<close>

type_synonym jsstring = "nat list"

abbreviation str :: "string \<Rightarrow> jsstring" where
  "str s \<equiv> map of_char s"

text \<open>
  \<open>String.prototype.trim\<close> removes, at both ends, the code points of the ECMAScript
  productions WhiteSpace (TAB, VT, FF, ZWNBSP and the Unicode category Zs) and
  LineTerminator (LF, CR, LS, PS). All of them are single code units.
\<close>

definition isWhiteSpace :: "nat \<Rightarrow> bool" where
  "isWhiteSpace c = (c = 9 \<or> c = 10 \<or> c = 11 \<or> c = 12 \<or> c = 13 \<or> c = 32 \<or> c = 160
     \<or> c = 5760 \<or> (8192 \<le> c \<and> c \<le> 8202) \<or> c = 8232 \<or> c = 8233 \<or> c = 8239
     \<or> c = 8287 \<or> c = 12288 \<or> c = 65279)"

definition trim :: "jsstring \<Rightarrow> jsstring" where
  "trim s = rev (dropWhile isWhiteSpace (rev (dropWhile isWhiteSpace s)))"

text \<open>\<open>s.substring(0, n)\<close> for a constant \<open>n \<ge> 0\<close>: the first \<open>n\<close> code units, or all of \<open>s\<close>.\<close>

definition substring0 :: "nat \<Rightarrow> jsstring \<Rightarrow> jsstring" where
  "substring0 n s = take n s"

text \<open>
  \<open>s.replace(a, b)\<close> with one-character string arguments replaces the first occurrence
  of \<open>a\<close> only.
\<close>

fun replaceFirst :: "nat \<Rightarrow> nat \<Rightarrow> jsstring \<Rightarrow> jsstring" where
  "replaceFirst a b [] = []"
| "replaceFirst a b (c # cs) = (if c = a then b # cs else c # replaceFirst a b cs)"

text \<open>
  A template literal converts a number with \<open>Number::toString\<close>. \<open>Date.now()\<close> is an
  integer of magnitude at most 8.64e15, where the conversion is the decimal numeral,
  with a minus sign for a negative value (a clock set before 1970).
\<close>

function digits :: "nat \<Rightarrow> jsstring" where
  "digits n = (if n < 10 then [48 + n] else digits (n div 10) @ [48 + n mod 10])"
  by pat_completeness auto
termination
  by (relation "measure (\<lambda>n. n)") auto

definition numToString :: "int \<Rightarrow> jsstring" where
  "numToString i = (if i < 0 then 45 # digits (nat (- i)) else digits (nat i))"

subsection \<open>Data model\<close>

text \<open>
  The interfaces \<open>Agent\<close> and \<open>Job\<close>. Their \<open>status\<close> fields are strings at run time
  (the union types are erased), and the projections take any \<open>string\<close>. The field
  names carry the interface's name in front, since both interfaces have an \<open>id\<close> and a
  \<open>status\<close>.
\<close>

record Agent =
  agent_id :: jsstring
  agent_name :: jsstring
  agent_status :: jsstring

record Job =
  job_id :: jsstring
  job_type :: jsstring
  job_status :: jsstring

text \<open>
  The component state (the five \<open>useState\<close> cells) and the two parts of the browser the
  handlers act on: the alerts shown so far, oldest first, and the pending \<open>setTimeout\<close>
  callbacks, oldest first. All callbacks are the same closure but for the \<open>jobPrompt\<close>
  they captured, so a pending callback is recorded as that prompt.
\<close>

record dashboard =
  agents :: "Agent list"
  jobs :: "Job list"
  loading :: bool
  jobPrompt :: jsstring
  isCreatingJob :: bool
  alerts :: "jsstring list"
  timers :: "jsstring list"

definition initial :: dashboard where
  "initial = \<lparr>agents = [], jobs = [], loading = True, jobPrompt = [],
     isCreatingJob = False, alerts = [], timers = []\<rparr>"

subsection \<open>fetchData\<close>

definition mockAgents :: "Agent list" where
  "mockAgents =
    [\<lparr>agent_id = str ''mistral'', agent_name = str ''Mistral 7B'', agent_status = str ''ready''\<rparr>,
     \<lparr>agent_id = str ''codellama'', agent_name = str ''Code Llama 13B'', agent_status = str ''ready''\<rparr>,
     \<lparr>agent_id = str ''llama'', agent_name = str ''Llama 3.2 3B'', agent_status = str ''ready''\<rparr>,
     \<lparr>agent_id = str ''research'', agent_name = str ''Research Agent'', agent_status = str ''ready''\<rparr>]"

definition mockJobs :: "Job list" where
  "mockJobs =
    [\<lparr>job_id = str ''job_001'', job_type = str ''content_creation'', job_status = str ''completed''\<rparr>,
     \<lparr>job_id = str ''job_002'', job_type = str ''video_generation'', job_status = str ''processing''\<rparr>,
     \<lparr>job_id = str ''job_003'', job_type = str ''content_creation'', job_status = str ''completed''\<rparr>]"

text \<open>
  Nothing in the \<open>try\<close> block can throw (two array literals and two state setters), so
  the \<open>catch\<close> branch is never taken; \<open>finally\<close> clears \<open>loading\<close>.
\<close>

definition fetchData :: "dashboard \<Rightarrow> dashboard" where
  "fetchData s = s\<lparr>agents := mockAgents, jobs := mockJobs, loading := False\<rparr>"

subsection \<open>createJob\<close>

definition validationMessage :: jsstring where
  "validationMessage = str ''Please enter a prompt for content creation!''"

text \<open>The object \<open>mockResponse\<close> built inside the timer callback.\<close>

record mockResponse =
  resp_id :: jsstring
  resp_status :: jsstring
  resp_type :: jsstring
  resp_content :: jsstring
  resp_model :: jsstring

text \<open>
  The two string literals of the callback hold the non-ASCII characters of the source
  file as they stand there; they are given by their code units.
\<close>

definition robotGlyph :: jsstring where
  "robotGlyph = [240, 376, 164, 8211]"

definition partyGlyph :: jsstring where
  "partyGlyph = [240, 376, 381, 8240]"

definition bulletGlyph :: jsstring where
  "bulletGlyph = [226, 8364, 162]"

definition mockContent :: "jsstring \<Rightarrow> jsstring" where
  "mockContent prompt =
     robotGlyph @ str '' AI Generated Content for: '' @ [34] @ prompt @ [34, 10, 10]
     @ str ''This is a demo response! Your AgenticAI Lab system would normally connect to the Mistral 7B model running in Docker to generate real AI content. The infrastructure is set up with:''
     @ [10, 10]
     @ bulletGlyph @ str '' Ollama container with 3 LLM models'' @ [10]
     @ bulletGlyph @ str '' PostgreSQL + Redis + Qdrant databases'' @ [10]
     @ bulletGlyph @ str '' FastAPI backend (having connection issues)'' @ [10]
     @ bulletGlyph @ str '' Next.js frontend (working perfectly!)'' @ [10, 10]
     @ str ''Once the backend is stable, you'' @ [39]
     @ str ''ll get real AI-generated content here!''"

definition makeMockResponse :: "jsstring \<Rightarrow> int \<Rightarrow> mockResponse" where
  "makeMockResponse prompt now =
     \<lparr>resp_id = str ''job_'' @ numToString now,
      resp_status = str ''completed'',
      resp_type = str ''content_creation'',
      resp_content = mockContent prompt,
      resp_model = str ''mistral:7b (simulated)''\<rparr>"

definition completionMessage :: "jsstring \<Rightarrow> mockResponse \<Rightarrow> jsstring" where
  "completionMessage prompt r =
     partyGlyph @ str '' Job Completed!'' @ [10, 10] @ str ''Prompt: '' @ prompt
     @ [10, 10] @ str ''Content: '' @ substring0 150 (resp_content r) @ str ''...''"

text \<open>
  The arrow function given to \<open>setTimeout\<close>. \<open>prompt\<close> is the \<open>jobPrompt\<close> captured when
  \<open>createJob\<close> ran, \<open>now\<close> is what \<open>Date.now()\<close> returns when the callback runs, and
  \<open>s\<close> is the state at that moment (\<open>setJobs\<close> is given an updater function, so it acts
  on the job list of that moment).
\<close>

definition createJobCallback :: "jsstring \<Rightarrow> int \<Rightarrow> dashboard \<Rightarrow> dashboard" where
  "createJobCallback prompt now s =
     (let r = makeMockResponse prompt now;
          s1 = s\<lparr>alerts := alerts s @ [completionMessage prompt r]\<rparr>;
          newJob = \<lparr>job_id = resp_id r, job_type = str ''content_creation'',
                    job_status = str ''completed''\<rparr>
      in s1\<lparr>jobs := newJob # jobs s1, jobPrompt := [], isCreatingJob := False\<rparr>)"

text \<open>
  \<open>createJob\<close> is declared \<open>async\<close> but awaits nothing: its body runs to the end within
  the click. An empty string is the only falsy string, so \<open>!jobPrompt.trim()\<close> holds
  exactly when the trimmed prompt is empty. The \<open>jobPrompt\<close> it reads is the one of the
  render the button belongs to, which is the current state: every state change is
  rendered before the next event is handled.
\<close>

definition createJob :: "dashboard \<Rightarrow> dashboard" where
  "createJob s =
     (if trim (jobPrompt s) = [] then s\<lparr>alerts := alerts s @ [validationMessage]\<rparr>
      else s\<lparr>isCreatingJob := True, timers := timers s @ [jobPrompt s]\<rparr>)"

text \<open>
  The timer that is due fires: the oldest pending callback runs (all delays are the
  same 2000 ms, so callbacks run in the order they were registered). With no pending
  callback there is nothing to fire.
\<close>

definition fireTimer :: "int \<Rightarrow> dashboard \<Rightarrow> dashboard option" where
  "fireTimer now s =
     (case timers s of
        [] \<Rightarrow> None
      | prompt # rest \<Rightarrow> Some (createJobCallback prompt now (s\<lparr>timers := rest\<rparr>)))"

subsection \<open>Status projection\<close>

text \<open>
  The JSX elements the projections return: a lucide icon component with its
  \<open>className\<close>, and a \<open>Badge\<close> with its \<open>variant\<close>, its \<open>className\<close> (absent on two of the
  badges) and its text.
\<close>

datatype icon = CheckCircle | Clock | AlertCircle | RefreshCw | Play

datatype iconElement = Icon icon jsstring

datatype variant = secondary | destructive | outline

datatype badgeElement = Badge variant "jsstring option" jsstring

text \<open>
  A \<open>switch\<close> compares with \<open>===\<close>, which on strings is equality of the code unit
  sequences; the first matching \<open>case\<close> label decides and every branch returns.
\<close>

definition getStatusIcon :: "jsstring \<Rightarrow> iconElement" where
  "getStatusIcon status =
     (if status = str ''ready'' then Icon CheckCircle (str ''h-4 w-4 text-green-500'')
      else if status = str ''busy'' \<or> status = str ''processing''
        then Icon Clock (str ''h-4 w-4 text-yellow-500'')
      else if status = str ''error'' \<or> status = str ''failed''
        then Icon AlertCircle (str ''h-4 w-4 text-red-500'')
      else if status = str ''completed'' then Icon CheckCircle (str ''h-4 w-4 text-green-500'')
      else Icon RefreshCw (str ''h-4 w-4 text-gray-500''))"

definition getStatusBadge :: "jsstring \<Rightarrow> badgeElement" where
  "getStatusBadge status =
     (if status = str ''ready''
        then Badge secondary (Some (str ''text-green-700 bg-green-100'')) (str ''Ready'')
      else if status = str ''busy'' \<or> status = str ''processing''
        then Badge secondary (Some (str ''text-yellow-700 bg-yellow-100'')) (str ''Busy'')
      else if status = str ''error'' \<or> status = str ''failed''
        then Badge destructive None (str ''Error'')
      else if status = str ''completed''
        then Badge secondary (Some (str ''text-green-700 bg-green-100'')) (str ''Completed'')
      else Badge outline None status)"

subsection \<open>Rendering\<close>

text \<open>
  What \<open>DashboardPage\<close> returns, reduced to the parts that depend on the state: the
  prompt input, the create button, the three computed figures of the stats cards (the
  fourth card is the constant text 98%), and one row per agent and per job.
\<close>

record statusRow =
  row_key :: jsstring
  row_icon :: iconElement
  row_title :: jsstring
  row_idLine :: jsstring
  row_badge :: badgeElement

record page =
  inputValue :: jsstring
  inputDisabled :: bool
  buttonDisabled :: bool
  buttonIcon :: iconElement
  buttonLabel :: jsstring
  totalAgents :: nat
  activeJobs :: nat
  completedJobs :: nat
  agentRows :: "statusRow list"
  jobRows :: "statusRow list"

datatype view = LoadingIndicator iconElement jsstring | Page page

definition agentRow :: "Agent \<Rightarrow> statusRow" where
  "agentRow agent =
     \<lparr>row_key = agent_id agent,
      row_icon = getStatusIcon (agent_status agent),
      row_title = agent_name agent,
      row_idLine = str ''ID: '' @ agent_id agent,
      row_badge = getStatusBadge (agent_status agent)\<rparr>"

definition jobRow :: "Job \<Rightarrow> statusRow" where
  "jobRow job =
     \<lparr>row_key = job_id job,
      row_icon = getStatusIcon (job_status job),
      row_title = replaceFirst 95 32 (job_type job),
      row_idLine = str ''ID: '' @ job_id job,
      row_badge = getStatusBadge (job_status job)\<rparr>"

definition render :: "dashboard \<Rightarrow> view" where
  "render s =
     (if loading s
      then LoadingIndicator (Icon RefreshCw (str ''h-8 w-8 animate-spin''))
             (str ''Loading dashboard...'')
      else Page
        \<lparr>inputValue = jobPrompt s,
         inputDisabled = isCreatingJob s,
         buttonDisabled = isCreatingJob s,
         buttonIcon = (if isCreatingJob s then Icon RefreshCw (str ''h-4 w-4 animate-spin'')
                       else Icon Play (str ''h-4 w-4'')),
         buttonLabel = (if isCreatingJob s then str ''Creating...'' else str ''Create Job''),
         totalAgents = length (agents s),
         activeJobs = length (filter (\<lambda>job. job_status job = str ''processing'') (jobs s)),
         completedJobs = length (filter (\<lambda>job. job_status job = str ''completed'') (jobs s)),
         agentRows = map agentRow (agents s),
         jobRows = map jobRow (jobs s)\<rparr>)"

subsection \<open>The page as an event-driven machine\<close>

text \<open>
  The browser runs the component one event at a time. The events are: the mount effect
  (\<open>useEffect\<close> with an empty dependency list, so it runs once, after the first render,
  which is the only render with \<open>loading\<close> set); the user changing the prompt input; the
  user clicking the create button; a pending timer coming due, with the clock reading
  at that moment. The input and the button exist only in the page view, and a disabled
  control delivers no event. An event that cannot happen in a state gives \<open>None\<close>.
\<close>

datatype event = Mount | Change jsstring | Click | Timeout int

definition step :: "dashboard \<Rightarrow> event \<Rightarrow> dashboard option" where
  "step s e =
     (case e of
        Mount \<Rightarrow> (if loading s then Some (fetchData s) else None)
      | Change v \<Rightarrow>
          (case render s of
             LoadingIndicator _ _ \<Rightarrow> None
           | Page p \<Rightarrow> (if inputDisabled p then None else Some (s\<lparr>jobPrompt := v\<rparr>)))
      | Click \<Rightarrow>
          (case render s of
             LoadingIndicator _ _ \<Rightarrow> None
           | Page p \<Rightarrow> (if buttonDisabled p then None else Some (createJob s)))
      | Timeout now \<Rightarrow> fireTimer now s)"

fun run :: "dashboard \<Rightarrow> event list \<Rightarrow> dashboard option" where
  "run s [] = Some s"
| "run s (e # es) = (case step s e of None \<Rightarrow> None | Some s' \<Rightarrow> run s' es)"

subsection \<open>The job lifecycle of the specification\<close>

text \<open>
  The lifecycle the specification intends for a job: \<open>created\<close>, then \<open>processing\<close>,
  then \<open>completed\<close> or \<open>failed\<close>, the last two terminal. \<open>lifecycleNext\<close> is one
  transition, \<open>lifecycleLe\<close> is any number of them. The code has no such relation; it is
  the yardstick the operations are measured against.
\<close>

definition lifecycleNext :: "jsstring \<Rightarrow> jsstring \<Rightarrow> bool" where
  "lifecycleNext a b =
     ((a = str ''created'' \<and> b = str ''processing'')
      \<or> (a = str ''processing'' \<and> (b = str ''completed'' \<or> b = str ''failed'')))"

definition lifecycleLe :: "jsstring \<Rightarrow> jsstring \<Rightarrow> bool" where
  "lifecycleLe a b =
     (a = b \<or> lifecycleNext a b
      \<or> (a = str ''created'' \<and> (b = str ''completed'' \<or> b = str ''failed'')))"

text \<open>
  A job list \<open>new\<close> continues a job list \<open>old\<close> when every job of \<open>old\<close> is still there, at
  the same distance from the end of the list (new jobs are added at the head), with
  the same identifier and type and a status that \<open>old\<close>'s status may move to.
\<close>

definition sameJobLater :: "Job \<Rightarrow> Job \<Rightarrow> bool" where
  "sameJobLater a b =
     (job_id b = job_id a \<and> job_type b = job_type a
      \<and> lifecycleLe (job_status a) (job_status b))"

definition continues :: "Job list \<Rightarrow> Job list \<Rightarrow> bool" where
  "continues old new =
     (length old \<le> length new
      \<and> list_all2 sameJobLater old (drop (length new - length old) new))"

subsection \<open>States the machine can be in\<close>

text \<open>
  What holds of every state the machine reaches from \<open>initial\<close>: before the mount effect
  the state is still \<open>initial\<close>; afterwards the agents are the mock roster; the guard flag
  is set exactly while a timer is pending; at most one timer is pending.
\<close>

definition settled :: "dashboard \<Rightarrow> bool" where
  "settled s =
     ((loading s \<longrightarrow> s = initial) \<and> (\<not> loading s \<longrightarrow> agents s = mockAgents)
      \<and> (isCreatingJob s \<longleftrightarrow> timers s \<noteq> []) \<and> length (timers s) \<le> 1)"

section \<open>Auxiliary facts\<close>

subsection \<open>Strings\<close>

declare digits.simps [simp del]

lemma trim_Nil_iff: "trim s = [] \<longleftrightarrow> (\<forall>c\<in>set s. isWhiteSpace c)"
proof -
  have "trim s = [] \<longleftrightarrow> (\<forall>c\<in>set (dropWhile isWhiteSpace s). isWhiteSpace c)"
    by (simp add: trim_def)
  also have "\<dots> \<longleftrightarrow> (\<forall>c\<in>set s. isWhiteSpace c)"
  proof
    assume all: "\<forall>c\<in>set (dropWhile isWhiteSpace s). isWhiteSpace c"
    have "dropWhile isWhiteSpace s = []"
    proof (rule ccontr)
      assume ne: "dropWhile isWhiteSpace s \<noteq> []"
      then have "\<not> isWhiteSpace (hd (dropWhile isWhiteSpace s))"
        by (rule hd_dropWhile)
      moreover from ne have "hd (dropWhile isWhiteSpace s) \<in> set (dropWhile isWhiteSpace s)"
        by (rule hd_in_set)
      ultimately show False using all by blast
    qed
    then show "\<forall>c\<in>set s. isWhiteSpace c" by simp
  next
    assume "\<forall>c\<in>set s. isWhiteSpace c"
    then show "\<forall>c\<in>set (dropWhile isWhiteSpace s). isWhiteSpace c"
      by (blast dest: set_dropWhileD)
  qed
  finally show ?thesis .
qed

lemma digits_not_Nil: "digits n \<noteq> []"
  by (subst digits.simps) simp

lemma last_digits: "last (digits n) = 48 + n mod 10"
  by (subst digits.simps) simp

lemma butlast_digits: "butlast (digits n) = (if n < 10 then [] else digits (n div 10))"
  by (subst digits.simps) simp

lemma digits_inj: "digits n = digits m \<Longrightarrow> n = m"
proof (induction n arbitrary: m rule: digits.induct)
  case (1 n)
  from "1.prems" have l: "last (digits n) = last (digits m)"
    and b: "butlast (digits n) = butlast (digits m)" by simp_all
  from l have md: "n mod 10 = m mod 10" by (simp add: last_digits)
  show ?case
  proof (cases "n < 10")
    case True
    with b have "m < 10"
      using digits_not_Nil [of "m div 10"] by (auto simp: butlast_digits split: if_splits)
    with True md show ?thesis by simp
  next
    case False
    with b have m10: "\<not> m < 10" and "digits (n div 10) = digits (m div 10)"
      using digits_not_Nil [of "n div 10"] by (auto simp: butlast_digits split: if_splits)
    with False "1.IH" have "n div 10 = m div 10" by blast
    with md show ?thesis by (metis div_mult_mod_eq)
  qed
qed

lemma digits_ge: "c \<in> set (digits n) \<Longrightarrow> 48 \<le> c"
proof (induction n rule: digits.induct)
  case (1 n)
  then show ?case
    by (subst (asm) (2) digits.simps) (auto split: if_splits)
qed

lemma hd_digits_not_minus: "digits n \<noteq> 45 # cs"
proof
  assume "digits n = 45 # cs"
  then have "(45::nat) \<in> set (digits n)" by simp
  then have "(48::nat) \<le> 45" by (rule digits_ge)
  then show False by simp
qed

lemma numToString_inj: "numToString a = numToString b \<Longrightarrow> a = b"
  using hd_digits_not_minus [of "nat a"] hd_digits_not_minus [of "nat b"]
  by (auto simp: numToString_def split: if_splits dest!: digits_inj dest: sym)

subsection \<open>Events\<close>

lemma step_Mount: "step s Mount = (if loading s then Some (fetchData s) else None)"
  by (simp add: step_def)

lemma step_Change:
  "step s (Change v) = (if loading s \<or> isCreatingJob s then None else Some (s\<lparr>jobPrompt := v\<rparr>))"
  by (simp add: step_def render_def)

lemma step_Click:
  "step s Click = (if loading s \<or> isCreatingJob s then None else Some (createJob s))"
  by (simp add: step_def render_def)

lemma step_Timeout: "step s (Timeout now) = fireTimer now s"
  by (simp add: step_def)

lemmas step_simps = step_Mount step_Change step_Click step_Timeout

lemma fireTimer_Some:
  "fireTimer now s = Some s' \<longleftrightarrow>
     (\<exists>prompt rest. timers s = prompt # rest
        \<and> s' = createJobCallback prompt now (s\<lparr>timers := rest\<rparr>))"
  by (auto simp: fireTimer_def split: list.splits)

lemma createJobCallback_eq:
  "createJobCallback prompt now s =
     s\<lparr>alerts := alerts s @ [completionMessage prompt (makeMockResponse prompt now)],
       jobs := \<lparr>job_id = str ''job_'' @ numToString now, job_type = str ''content_creation'',
                 job_status = str ''completed''\<rparr> # jobs s,
       jobPrompt := [], isCreatingJob := False\<rparr>"
  by (simp add: createJobCallback_def Let_def makeMockResponse_def)

lemma step_initial: "step initial e = Some s' \<longleftrightarrow> e = Mount \<and> s' = fetchData initial"
  by (cases e) (auto simp: step_simps fireTimer_def initial_def)

subsection \<open>Invariants of the machine\<close>

lemma settled_initial: "settled initial"
  by (simp add: settled_def initial_def)

lemma settled_step:
  assumes "settled s" and "step s e = Some s'"
  shows "settled s'"
proof (cases e)
  case Mount
  with assms show ?thesis
    by (auto simp: step_Mount settled_def fetchData_def initial_def split: if_splits)
next
  case (Change v)
  with assms show ?thesis
    by (auto simp: step_Change settled_def split: if_splits)
next
  case Click
  with assms show ?thesis
    by (auto simp: step_Click settled_def createJob_def split: if_splits)
next
  case (Timeout now)
  with assms show ?thesis
    by (auto simp: step_Timeout fireTimer_Some createJobCallback_eq settled_def initial_def)
qed

lemma settled_run: "settled s \<Longrightarrow> run s es = Some s' \<Longrightarrow> settled s'"
proof (induction es arbitrary: s)
  case Nil
  then show ?case by simp
next
  case (Cons e es)
  then show ?case
    by (auto split: option.splits dest: settled_step)
qed

lemma reachable_settled: "run initial es = Some s \<Longrightarrow> settled s"
  using settled_initial by (rule settled_run)

lemma step_not_loading: "step s e = Some s' \<Longrightarrow> \<not> loading s \<Longrightarrow> \<not> loading s'"
  by (cases e)
    (auto simp: step_simps fireTimer_Some createJobCallback_eq createJob_def split: if_splits)

lemma run_not_loading: "run s es = Some s' \<Longrightarrow> \<not> loading s \<Longrightarrow> \<not> loading s'"
proof (induction es arbitrary: s)
  case Nil
  then show ?case by simp
next
  case (Cons e es)
  then show ?case
    by (auto split: option.splits dest: step_not_loading)
qed

lemma reachable_loading:
  assumes "run initial es = Some s"
  shows "loading s \<longleftrightarrow> es = []"
proof (cases es)
  case Nil
  with assms have "s = initial" by simp
  with Nil show ?thesis by (simp add: initial_def)
next
  case (Cons e es')
  with assms obtain s1 where s1: "step initial e = Some s1" and r: "run s1 es' = Some s"
    by (auto split: option.splits)
  from s1 have "s1 = fetchData initial" by (simp add: step_initial)
  then have "\<not> loading s1" by (simp add: fetchData_def)
  with r have "\<not> loading s" by (rule run_not_loading)
  with Cons show ?thesis by simp
qed

text \<open>No event removes or changes a job: the job list only grows at its head.\<close>

lemma step_jobs:
  assumes "settled s" and "step s e = Some s'"
  shows "jobs s' = jobs s \<or> (\<exists>j. jobs s' = j # jobs s) \<or> (jobs s = [])"
proof (cases e)
  case Mount
  with assms show ?thesis
    by (auto simp: step_Mount settled_def initial_def split: if_splits)
next
  case (Change v)
  with assms show ?thesis by (auto simp: step_Change split: if_splits)
next
  case Click
  with assms show ?thesis by (auto simp: step_Click createJob_def split: if_splits)
next
  case (Timeout now)
  with assms show ?thesis
    by (auto simp: step_Timeout fireTimer_Some createJobCallback_eq)
qed

lemma step_suffix: "settled s \<Longrightarrow> step s e = Some s' \<Longrightarrow> suffix (jobs s) (jobs s')"
  using step_jobs [of s e s'] by (auto simp: suffix_def)

lemma run_suffix: "settled s \<Longrightarrow> run s es = Some s' \<Longrightarrow> suffix (jobs s) (jobs s')"
proof (induction es arbitrary: s)
  case Nil
  then show ?case by simp
next
  case (Cons e es)
  from Cons.prems obtain s1 where s1: "step s e = Some s1" and r: "run s1 es = Some s'"
    by (auto split: option.splits)
  from Cons.prems(1) s1 have "settled s1" by (rule settled_step)
  with r have "suffix (jobs s1) (jobs s')" by (rule Cons.IH [rotated])
  moreover from Cons.prems(1) s1 have "suffix (jobs s) (jobs s1)" by (rule step_suffix)
  ultimately show ?case by (blast intro: suffix_order.trans)
qed

lemma lifecycleLe_refl: "lifecycleLe a a"
  by (simp add: lifecycleLe_def)

lemma continues_suffix: "suffix old new \<Longrightarrow> continues old new"
  by (auto simp: suffix_def continues_def sameJobLater_def lifecycleLe_refl
      intro!: list_all2_refl)

section \<open>The claims of the specification\<close>

text \<open>
  Claim C1. In a state the page can reach, a click that the button accepts, with a
  prompt that is not empty once trimmed, calls \<open>createJob\<close>, which registers one timer
  callback and leaves the job list and the alerts alone. From then on nothing but that
  timer can happen (the controls are disabled), and when it fires, at whatever clock
  reading \<open>now\<close>, the job list is the list of before with exactly one job prepended, of
  type \<open>content_creation\<close> and status \<open>completed\<close>, never \<open>failed\<close>. The callback has no
  failing branch: in any state and for any captured prompt it prepends one such job.
  That the browser does fire a registered timer is taken for granted.
\<close>

theorem createJob_accepted:
  assumes reach: "run initial es = Some s"
    and click: "step s Click = Some s1"
    and prompt: "trim (jobPrompt s) \<noteq> []"
  shows "s1 = createJob s \<and> jobs s1 = jobs s \<and> alerts s1 = alerts s
     \<and> isCreatingJob s1 \<and> timers s1 = [jobPrompt s]
     \<and> (\<forall>e s2. step s1 e = Some s2 \<longrightarrow> (\<exists>t. e = Timeout t))
     \<and> (\<exists>s2. step s1 (Timeout now) = Some s2
          \<and> jobs s2 = \<lparr>job_id = str ''job_'' @ numToString now,
                        job_type = str ''content_creation'',
                        job_status = str ''completed''\<rparr> # jobs s
          \<and> length (jobs s2) = Suc (length (jobs s))
          \<and> job_status (hd (jobs s2)) \<noteq> str ''failed''
          \<and> \<not> isCreatingJob s2 \<and> timers s2 = [])
     \<and> (\<forall>p t u. \<exists>j. jobs (createJobCallback p t u) = j # jobs u
          \<and> job_type j = str ''content_creation'' \<and> job_status j = str ''completed'')"
proof -
  from reach have st: "settled s" by (rule reachable_settled)
  from click have idle: "\<not> loading s" "\<not> isCreatingJob s" and s1: "s1 = createJob s"
    by (auto simp: step_Click split: if_splits)
  from st idle have nt: "timers s = []" by (simp add: settled_def)
  from prompt nt have s1': "s1 = s\<lparr>isCreatingJob := True, timers := [jobPrompt s]\<rparr>"
    by (simp add: s1 createJob_def)
  have only: "\<forall>e s2. step s1 e = Some s2 \<longrightarrow> (\<exists>t. e = Timeout t)"
  proof (intro allI impI)
    fix e s2 assume "step s1 e = Some s2"
    with idle show "\<exists>t. e = Timeout t"
      by (cases e) (auto simp: s1' step_Mount step_Change step_Click split: if_splits)
  qed
  have fire: "step s1 (Timeout now)
      = Some (createJobCallback (jobPrompt s) now (s\<lparr>isCreatingJob := True, timers := []\<rparr>))"
    by (simp add: s1' step_Timeout fireTimer_def)
  have before: "jobs s1 = jobs s \<and> alerts s1 = alerts s \<and> isCreatingJob s1
      \<and> timers s1 = [jobPrompt s]"
    by (simp add: s1')
  have after: "\<exists>s2. step s1 (Timeout now) = Some s2
          \<and> jobs s2 = \<lparr>job_id = str ''job_'' @ numToString now,
                        job_type = str ''content_creation'',
                        job_status = str ''completed''\<rparr> # jobs s
          \<and> length (jobs s2) = Suc (length (jobs s))
          \<and> job_status (hd (jobs s2)) \<noteq> str ''failed''
          \<and> \<not> isCreatingJob s2 \<and> timers s2 = []"
    by (simp add: fire createJobCallback_eq)
  have always: "\<forall>p t u. \<exists>j. jobs (createJobCallback p t u) = j # jobs u
          \<and> job_type j = str ''content_creation'' \<and> job_status j = str ''completed''"
    by (simp add: createJobCallback_eq)
  from s1 before only after always show ?thesis by blast
qed

theorem createJob_accepted_witness:
  "\<exists>s. run initial [Mount, Change (str ''Hi''), Click, Timeout 1758400000000] = Some s
     \<and> jobs s = \<lparr>job_id = str ''job_1758400000000'', job_type = str ''content_creation'',
                  job_status = str ''completed''\<rparr> # mockJobs"
proof -
  let ?s = "(fetchData initial)\<lparr>jobPrompt := str ''Hi''\<rparr>"
  have r: "run initial [Mount, Change (str ''Hi'')] = Some ?s"
    by (simp add: step_Mount step_Change initial_def fetchData_def)
  have c: "step ?s Click = Some (createJob ?s)"
    by (simp add: step_Click initial_def fetchData_def)
  have p: "trim (jobPrompt ?s) \<noteq> []"
    by (simp add: trim_def isWhiteSpace_def)
  from createJob_accepted [OF r c p, of 1758400000000]
  obtain s2 where s2: "step (createJob ?s) (Timeout 1758400000000) = Some s2"
    and j: "jobs s2 = \<lparr>job_id = str ''job_'' @ numToString 1758400000000,
                        job_type = str ''content_creation'',
                        job_status = str ''completed''\<rparr> # jobs ?s"
    by blast
  have n: "numToString 1758400000000 = str ''1758400000000''"
    by (simp add: numToString_def digits.simps)
  from r c s2 have "run initial [Mount, Change (str ''Hi''), Click, Timeout 1758400000000] = Some s2"
    by (simp add: step_Mount step_Change initial_def fetchData_def)
  moreover from j n have "jobs s2 = \<lparr>job_id = str ''job_1758400000000'', job_type = str ''content_creation'',
                  job_status = str ''completed''\<rparr> # mockJobs"
    by (simp add: fetchData_def)
  ultimately show ?thesis by blast
qed

text \<open>
  Claim C2. When every code unit of the prompt is white space (the empty prompt
  included), the trimmed prompt is empty and \<open>createJob\<close>, in any state, does nothing
  but show the validation alert: no job, no timer, and agents, jobs, prompt, loading
  flag and guard flag as before.
\<close>

theorem createJob_blank:
  assumes "\<forall>c\<in>set (jobPrompt s). isWhiteSpace c"
  shows "trim (jobPrompt s) = []
     \<and> createJob s = s\<lparr>alerts := alerts s @ [validationMessage]\<rparr>
     \<and> jobs (createJob s) = jobs s \<and> agents (createJob s) = agents s
     \<and> isCreatingJob (createJob s) = isCreatingJob s
     \<and> timers (createJob s) = timers s
     \<and> loading (createJob s) = loading s \<and> jobPrompt (createJob s) = jobPrompt s"
proof -
  from assms have "trim (jobPrompt s) = []" by (simp add: trim_Nil_iff)
  then show ?thesis by (simp add: createJob_def)
qed

theorem createJob_blank_witness:
  "createJob ((fetchData initial)\<lparr>jobPrompt := [32, 9, 160]\<rparr>)
     = (fetchData initial)\<lparr>jobPrompt := [32, 9, 160],
          alerts := [str ''Please enter a prompt for content creation!'']\<rparr>"
proof -
  let ?s = "(fetchData initial)\<lparr>jobPrompt := [32, 9, 160]\<rparr>"
  have h: "\<forall>c\<in>set (jobPrompt ?s). isWhiteSpace c"
    by (simp add: isWhiteSpace_def)
  from createJob_blank [OF h] have "createJob ?s = ?s\<lparr>alerts := alerts ?s @ [validationMessage]\<rparr>"
    by blast
  then show ?thesis
    by (simp add: validationMessage_def initial_def fetchData_def)
qed

text \<open>
  Claim C3. \<open>getStatusBadge\<close> and \<open>getStatusIcon\<close> return an element for every string:
  the seven status values of the two interfaces get the elements listed (\<open>created\<close> has
  no case label of its own), and any other string gets the outline badge whose text is
  that string, and the gray refresh icon.
\<close>

theorem status_projection_total:
  "getStatusBadge (str ''ready'')
      = Badge secondary (Some (str ''text-green-700 bg-green-100'')) (str ''Ready'')
   \<and> getStatusBadge (str ''busy'')
      = Badge secondary (Some (str ''text-yellow-700 bg-yellow-100'')) (str ''Busy'')
   \<and> getStatusBadge (str ''error'') = Badge destructive None (str ''Error'')
   \<and> getStatusBadge (str ''created'') = Badge outline None (str ''created'')
   \<and> getStatusBadge (str ''processing'')
      = Badge secondary (Some (str ''text-yellow-700 bg-yellow-100'')) (str ''Busy'')
   \<and> getStatusBadge (str ''completed'')
      = Badge secondary (Some (str ''text-green-700 bg-green-100'')) (str ''Completed'')
   \<and> getStatusBadge (str ''failed'') = Badge destructive None (str ''Error'')
   \<and> getStatusIcon (str ''ready'') = Icon CheckCircle (str ''h-4 w-4 text-green-500'')
   \<and> getStatusIcon (str ''busy'') = Icon Clock (str ''h-4 w-4 text-yellow-500'')
   \<and> getStatusIcon (str ''error'') = Icon AlertCircle (str ''h-4 w-4 text-red-500'')
   \<and> getStatusIcon (str ''created'') = Icon RefreshCw (str ''h-4 w-4 text-gray-500'')
   \<and> getStatusIcon (str ''processing'') = Icon Clock (str ''h-4 w-4 text-yellow-500'')
   \<and> getStatusIcon (str ''completed'') = Icon CheckCircle (str ''h-4 w-4 text-green-500'')
   \<and> getStatusIcon (str ''failed'') = Icon AlertCircle (str ''h-4 w-4 text-red-500'')
   \<and> (status \<notin> {str ''ready'', str ''busy'', str ''error'', str ''created'',
                   str ''processing'', str ''completed'', str ''failed''}
        \<longrightarrow> getStatusBadge status = Badge outline None status
          \<and> getStatusIcon status = Icon RefreshCw (str ''h-4 w-4 text-gray-500''))"
  by (simp add: getStatusBadge_def getStatusIcon_def)

theorem status_projection_total_witness:
  "getStatusBadge (str ''paused'') = Badge outline None (str ''paused'')
   \<and> getStatusIcon (str ''paused'') = Icon RefreshCw (str ''h-4 w-4 text-gray-500'')
   \<and> getStatusBadge [] = Badge outline None []"
proof -
  have h: "str ''paused'' \<notin> {str ''ready'', str ''busy'', str ''error'', str ''created'',
                   str ''processing'', str ''completed'', str ''failed''}"
    by simp
  have e: "([]::jsstring) \<notin> {str ''ready'', str ''busy'', str ''error'', str ''created'',
                   str ''processing'', str ''completed'', str ''failed''}"
    by simp
  from status_projection_total [of "str ''paused''"] h
  have "getStatusBadge (str ''paused'') = Badge outline None (str ''paused'')
     \<and> getStatusIcon (str ''paused'') = Icon RefreshCw (str ''h-4 w-4 text-gray-500'')"
    by blast
  moreover from status_projection_total [of "[]"] e
  have "getStatusBadge [] = Badge outline None []"
    by blast
  ultimately show ?thesis by blast
qed

text \<open>
  Claim C4. In every state the page can reach, at most one timer is pending and the
  guard flag \<open>isCreatingJob\<close> is set exactly while one is. While it is set, the input and
  the button are rendered disabled, no click, change or mount can happen, and the timer
  firing clears the flag, empties the timer list and renders both controls enabled.
  While it is clear, no timer can fire, and an accepted click sets the flag (with one
  pending timer) exactly when the trimmed prompt is not empty.
\<close>

theorem single_flight:
  assumes reach: "run initial es = Some s"
  shows "length (timers s) \<le> 1
     \<and> (isCreatingJob s \<longleftrightarrow> timers s \<noteq> [])
     \<and> (isCreatingJob s \<longrightarrow>
          (\<exists>p. render s = Page p \<and> inputDisabled p \<and> buttonDisabled p)
          \<and> step s Click = None \<and> (\<forall>v. step s (Change v) = None) \<and> step s Mount = None
          \<and> (\<forall>now. \<exists>s'. step s (Timeout now) = Some s' \<and> \<not> isCreatingJob s'
                \<and> timers s' = []
                \<and> (\<exists>p. render s' = Page p \<and> \<not> inputDisabled p \<and> \<not> buttonDisabled p)))
     \<and> (\<not> isCreatingJob s \<longrightarrow>
          (\<forall>now. step s (Timeout now) = None)
          \<and> (\<forall>s'. step s Click = Some s' \<and> trim (jobPrompt s) \<noteq> []
                \<longrightarrow> isCreatingJob s' \<and> timers s' = [jobPrompt s])
          \<and> (\<forall>s'. step s Click = Some s' \<and> trim (jobPrompt s) = []
                \<longrightarrow> \<not> isCreatingJob s' \<and> timers s' = []))"
proof -
  from reach have st: "settled s" by (rule reachable_settled)
  then have one: "length (timers s) \<le> 1" and flag: "isCreatingJob s \<longleftrightarrow> timers s \<noteq> []"
    and ld: "loading s \<Longrightarrow> s = initial"
    by (simp_all add: settled_def)
  have busy: "(\<exists>p. render s = Page p \<and> inputDisabled p \<and> buttonDisabled p)
          \<and> step s Click = None \<and> (\<forall>v. step s (Change v) = None) \<and> step s Mount = None
          \<and> (\<forall>now. \<exists>s'. step s (Timeout now) = Some s' \<and> \<not> isCreatingJob s'
                \<and> timers s' = []
                \<and> (\<exists>p. render s' = Page p \<and> \<not> inputDisabled p \<and> \<not> buttonDisabled p))"
    if c: "isCreatingJob s"
  proof -
    from c ld have nl: "\<not> loading s" by (auto simp: initial_def)
    from c flag one obtain prompt where ts: "timers s = [prompt]"
      by (cases "timers s") auto
    from nl c have "\<exists>p. render s = Page p \<and> inputDisabled p \<and> buttonDisabled p"
      by (simp add: render_def)
    moreover from nl c have "step s Click = None \<and> (\<forall>v. step s (Change v) = None)
        \<and> step s Mount = None"
      by (simp add: step_simps)
    moreover have "\<exists>s'. step s (Timeout now) = Some s' \<and> \<not> isCreatingJob s'
                \<and> timers s' = []
                \<and> (\<exists>p. render s' = Page p \<and> \<not> inputDisabled p \<and> \<not> buttonDisabled p)" for now
      using nl ts by (simp add: step_Timeout fireTimer_def createJobCallback_eq render_def)
    ultimately show ?thesis by blast
  qed
  have idle: "(\<forall>now. step s (Timeout now) = None)
          \<and> (\<forall>s'. step s Click = Some s' \<and> trim (jobPrompt s) \<noteq> []
                \<longrightarrow> isCreatingJob s' \<and> timers s' = [jobPrompt s])
          \<and> (\<forall>s'. step s Click = Some s' \<and> trim (jobPrompt s) = []
                \<longrightarrow> \<not> isCreatingJob s' \<and> timers s' = [])"
    if c: "\<not> isCreatingJob s"
  proof -
    from c flag have ts: "timers s = []" by simp
    then have "\<forall>now. step s (Timeout now) = None"
      by (simp add: step_Timeout fireTimer_def)
    moreover from c ts have "\<forall>s'. step s Click = Some s' \<and> trim (jobPrompt s) \<noteq> []
                \<longrightarrow> isCreatingJob s' \<and> timers s' = [jobPrompt s]"
      by (auto simp: step_Click createJob_def split: if_splits)
    moreover from c ts have "\<forall>s'. step s Click = Some s' \<and> trim (jobPrompt s) = []
                \<longrightarrow> \<not> isCreatingJob s' \<and> timers s' = []"
      by (auto simp: step_Click createJob_def split: if_splits)
    ultimately show ?thesis by blast
  qed
  from one flag busy idle show ?thesis by blast
qed

theorem single_flight_witness:
  "\<exists>s. run initial [Mount, Change (str ''Hi''), Click] = Some s
     \<and> isCreatingJob s \<and> timers s = [str ''Hi''] \<and> step s Click = None
     \<and> (\<exists>s'. step s (Timeout 5) = Some s' \<and> \<not> isCreatingJob s')"
proof -
  let ?s = "(fetchData initial)\<lparr>jobPrompt := str ''Hi'', isCreatingJob := True,
     timers := [str ''Hi'']\<rparr>"
  have r: "run initial [Mount, Change (str ''Hi''), Click] = Some ?s"
    by (simp add: step_simps initial_def fetchData_def createJob_def trim_def isWhiteSpace_def)
  have c: "isCreatingJob ?s" and t: "timers ?s = [str ''Hi'']"
    by simp_all
  from single_flight [OF r] c
  have "step ?s Click = None \<and> (\<exists>s'. step ?s (Timeout 5) = Some s' \<and> \<not> isCreatingJob s')"
    by blast
  with r c t show ?thesis by blast
qed

text \<open>
  Claim C5. The first render is the loading indicator, and the only event possible in
  the initial state is the mount effect, which runs \<open>fetchData\<close>. \<open>fetchData\<close> stores
  the four mock agents and the three mock jobs, and the page rendered after it is the
  one written out below: a row for each of the four agents (its name, its identifier
  line, the green check icon and the Ready badge), a row for each of the three jobs
  (its type with the first underscore turned into a space, its identifier line, the
  icon and the badge of its status), 4 under Total Agents, 2 under Completed and 1
  under Active Jobs. A reachable state renders the loading indicator exactly when no
  event has happened yet; every page rendered later has the same four agents, each
  with its row, one row per job of the job list built from that job's own fields, the
  number of jobs with status \<open>completed\<close> under Completed and the number with status
  \<open>processing\<close> under Active Jobs.
\<close>

theorem initial_load:
  assumes reach: "run initial es = Some s"
  shows "render initial = LoadingIndicator (Icon RefreshCw (str ''h-8 w-8 animate-spin''))
            (str ''Loading dashboard...'')
     \<and> (\<forall>e s'. step initial e = Some s' \<longrightarrow> e = Mount)
     \<and> step initial Mount = Some (fetchData initial)
     \<and> agents (fetchData initial) =
          [\<lparr>agent_id = str ''mistral'', agent_name = str ''Mistral 7B'',
             agent_status = str ''ready''\<rparr>,
           \<lparr>agent_id = str ''codellama'', agent_name = str ''Code Llama 13B'',
             agent_status = str ''ready''\<rparr>,
           \<lparr>agent_id = str ''llama'', agent_name = str ''Llama 3.2 3B'',
             agent_status = str ''ready''\<rparr>,
           \<lparr>agent_id = str ''research'', agent_name = str ''Research Agent'',
             agent_status = str ''ready''\<rparr>]
     \<and> jobs (fetchData initial) =
          [\<lparr>job_id = str ''job_001'', job_type = str ''content_creation'',
             job_status = str ''completed''\<rparr>,
           \<lparr>job_id = str ''job_002'', job_type = str ''video_generation'',
             job_status = str ''processing''\<rparr>,
           \<lparr>job_id = str ''job_003'', job_type = str ''content_creation'',
             job_status = str ''completed''\<rparr>]
     \<and> render (fetchData initial) = Page
          \<lparr>inputValue = [], inputDisabled = False, buttonDisabled = False,
           buttonIcon = Icon Play (str ''h-4 w-4''), buttonLabel = str ''Create Job'',
           totalAgents = 4, activeJobs = 1, completedJobs = 2,
           agentRows =
             [\<lparr>row_key = str ''mistral'',
                row_icon = Icon CheckCircle (str ''h-4 w-4 text-green-500''),
                row_title = str ''Mistral 7B'', row_idLine = str ''ID: mistral'',
                row_badge = Badge secondary (Some (str ''text-green-700 bg-green-100''))
                  (str ''Ready'')\<rparr>,
              \<lparr>row_key = str ''codellama'',
                row_icon = Icon CheckCircle (str ''h-4 w-4 text-green-500''),
                row_title = str ''Code Llama 13B'', row_idLine = str ''ID: codellama'',
                row_badge = Badge secondary (Some (str ''text-green-700 bg-green-100''))
                  (str ''Ready'')\<rparr>,
              \<lparr>row_key = str ''llama'',
                row_icon = Icon CheckCircle (str ''h-4 w-4 text-green-500''),
                row_title = str ''Llama 3.2 3B'', row_idLine = str ''ID: llama'',
                row_badge = Badge secondary (Some (str ''text-green-700 bg-green-100''))
                  (str ''Ready'')\<rparr>,
              \<lparr>row_key = str ''research'',
                row_icon = Icon CheckCircle (str ''h-4 w-4 text-green-500''),
                row_title = str ''Research Agent'', row_idLine = str ''ID: research'',
                row_badge = Badge secondary (Some (str ''text-green-700 bg-green-100''))
                  (str ''Ready'')\<rparr>],
           jobRows =
             [\<lparr>row_key = str ''job_001'',
                row_icon = Icon CheckCircle (str ''h-4 w-4 text-green-500''),
                row_title = str ''content creation'', row_idLine = str ''ID: job_001'',
                row_badge = Badge secondary (Some (str ''text-green-700 bg-green-100''))
                  (str ''Completed'')\<rparr>,
              \<lparr>row_key = str ''job_002'',
                row_icon = Icon Clock (str ''h-4 w-4 text-yellow-500''),
                row_title = str ''video generation'', row_idLine = str ''ID: job_002'',
                row_badge = Badge secondary (Some (str ''text-yellow-700 bg-yellow-100''))
                  (str ''Busy'')\<rparr>,
              \<lparr>row_key = str ''job_003'',
                row_icon = Icon CheckCircle (str ''h-4 w-4 text-green-500''),
                row_title = str ''content creation'', row_idLine = str ''ID: job_003'',
                row_badge = Badge secondary (Some (str ''text-green-700 bg-green-100''))
                  (str ''Completed'')\<rparr>]\<rparr>
     \<and> (\<exists>p. render (fetchData initial) = Page p \<and> totalAgents p = 4
            \<and> length (agentRows p) = 4 \<and> length (jobRows p) = 3
            \<and> completedJobs p = 2 \<and> activeJobs p = 1)
     \<and> ((\<exists>i t. render s = LoadingIndicator i t) \<longleftrightarrow> es = [])
     \<and> (\<forall>p. render s = Page p \<longrightarrow>
           totalAgents p = 4 \<and> length (agentRows p) = 4
           \<and> agents s = agents (fetchData initial)
           \<and> agentRows p = map (\<lambda>agent.
                 \<lparr>row_key = agent_id agent, row_icon = getStatusIcon (agent_status agent),
                  row_title = agent_name agent,
                  row_idLine = str ''ID: '' @ agent_id agent,
                  row_badge = getStatusBadge (agent_status agent)\<rparr>) (agents s)
           \<and> length (jobRows p) = length (jobs s)
           \<and> jobRows p = map (\<lambda>job.
                 \<lparr>row_key = job_id job, row_icon = getStatusIcon (job_status job),
                  row_title = replaceFirst 95 32 (job_type job),
                  row_idLine = str ''ID: '' @ job_id job,
                  row_badge = getStatusBadge (job_status job)\<rparr>) (jobs s)
           \<and> completedJobs p
               = length (filter (\<lambda>job. job_status job = str ''completed'') (jobs s))
           \<and> activeJobs p
               = length (filter (\<lambda>job. job_status job = str ''processing'') (jobs s)))"
proof -
  have a: "render initial = LoadingIndicator (Icon RefreshCw (str ''h-8 w-8 animate-spin''))
            (str ''Loading dashboard...'')"
    by (simp add: render_def initial_def)
  have b: "\<forall>e s'. step initial e = Some s' \<longrightarrow> e = Mount"
    by (simp add: step_initial)
  have c: "step initial Mount = Some (fetchData initial)"
    by (simp add: step_initial)
  have g: "agents (fetchData initial) =
          [\<lparr>agent_id = str ''mistral'', agent_name = str ''Mistral 7B'',
             agent_status = str ''ready''\<rparr>,
           \<lparr>agent_id = str ''codellama'', agent_name = str ''Code Llama 13B'',
             agent_status = str ''ready''\<rparr>,
           \<lparr>agent_id = str ''llama'', agent_name = str ''Llama 3.2 3B'',
             agent_status = str ''ready''\<rparr>,
           \<lparr>agent_id = str ''research'', agent_name = str ''Research Agent'',
             agent_status = str ''ready''\<rparr>]"
    by (simp add: fetchData_def mockAgents_def)
  have h: "jobs (fetchData initial) =
          [\<lparr>job_id = str ''job_001'', job_type = str ''content_creation'',
             job_status = str ''completed''\<rparr>,
           \<lparr>job_id = str ''job_002'', job_type = str ''video_generation'',
             job_status = str ''processing''\<rparr>,
           \<lparr>job_id = str ''job_003'', job_type = str ''content_creation'',
             job_status = str ''completed''\<rparr>]"
    by (simp add: fetchData_def mockJobs_def)
  have k: "render (fetchData initial) = Page
          \<lparr>inputValue = [], inputDisabled = False, buttonDisabled = False,
           buttonIcon = Icon Play (str ''h-4 w-4''), buttonLabel = str ''Create Job'',
           totalAgents = 4, activeJobs = 1, completedJobs = 2,
           agentRows =
             [\<lparr>row_key = str ''mistral'',
                row_icon = Icon CheckCircle (str ''h-4 w-4 text-green-500''),
                row_title = str ''Mistral 7B'', row_idLine = str ''ID: mistral'',
                row_badge = Badge secondary (Some (str ''text-green-700 bg-green-100''))
                  (str ''Ready'')\<rparr>,
              \<lparr>row_key = str ''codellama'',
                row_icon = Icon CheckCircle (str ''h-4 w-4 text-green-500''),
                row_title = str ''Code Llama 13B'', row_idLine = str ''ID: codellama'',
                row_badge = Badge secondary (Some (str ''text-green-700 bg-green-100''))
                  (str ''Ready'')\<rparr>,
              \<lparr>row_key = str ''llama'',
                row_icon = Icon CheckCircle (str ''h-4 w-4 text-green-500''),
                row_title = str ''Llama 3.2 3B'', row_idLine = str ''ID: llama'',
                row_badge = Badge secondary (Some (str ''text-green-700 bg-green-100''))
                  (str ''Ready'')\<rparr>,
              \<lparr>row_key = str ''research'',
                row_icon = Icon CheckCircle (str ''h-4 w-4 text-green-500''),
                row_title = str ''Research Agent'', row_idLine = str ''ID: research'',
                row_badge = Badge secondary (Some (str ''text-green-700 bg-green-100''))
                  (str ''Ready'')\<rparr>],
           jobRows =
             [\<lparr>row_key = str ''job_001'',
                row_icon = Icon CheckCircle (str ''h-4 w-4 text-green-500''),
                row_title = str ''content creation'', row_idLine = str ''ID: job_001'',
                row_badge = Badge secondary (Some (str ''text-green-700 bg-green-100''))
                  (str ''Completed'')\<rparr>,
              \<lparr>row_key = str ''job_002'',
                row_icon = Icon Clock (str ''h-4 w-4 text-yellow-500''),
                row_title = str ''video generation'', row_idLine = str ''ID: job_002'',
                row_badge = Badge secondary (Some (str ''text-yellow-700 bg-yellow-100''))
                  (str ''Busy'')\<rparr>,
              \<lparr>row_key = str ''job_003'',
                row_icon = Icon CheckCircle (str ''h-4 w-4 text-green-500''),
                row_title = str ''content creation'', row_idLine = str ''ID: job_003'',
                row_badge = Badge secondary (Some (str ''text-green-700 bg-green-100''))
                  (str ''Completed'')\<rparr>]\<rparr>"
    by (simp add: render_def fetchData_def initial_def mockAgents_def mockJobs_def
        agentRow_def jobRow_def getStatusIcon_def getStatusBadge_def)
  have d: "\<exists>p. render (fetchData initial) = Page p \<and> totalAgents p = 4
            \<and> length (agentRows p) = 4 \<and> length (jobRows p) = 3
            \<and> completedJobs p = 2 \<and> activeJobs p = 1"
    by (simp add: k)
  from reach have ld: "loading s \<longleftrightarrow> es = []" by (rule reachable_loading)
  then have e: "(\<exists>i t. render s = LoadingIndicator i t) \<longleftrightarrow> es = []"
    by (simp add: render_def)
  from reach have "settled s" by (rule reachable_settled)
  then have ag: "\<not> loading s \<Longrightarrow> agents s = mockAgents" by (simp add: settled_def)
  have f: "\<forall>p. render s = Page p \<longrightarrow>
           totalAgents p = 4 \<and> length (agentRows p) = 4
           \<and> agents s = agents (fetchData initial)
           \<and> agentRows p = map (\<lambda>agent.
                 \<lparr>row_key = agent_id agent, row_icon = getStatusIcon (agent_status agent),
                  row_title = agent_name agent,
                  row_idLine = str ''ID: '' @ agent_id agent,
                  row_badge = getStatusBadge (agent_status agent)\<rparr>) (agents s)
           \<and> length (jobRows p) = length (jobs s)
           \<and> jobRows p = map (\<lambda>job.
                 \<lparr>row_key = job_id job, row_icon = getStatusIcon (job_status job),
                  row_title = replaceFirst 95 32 (job_type job),
                  row_idLine = str ''ID: '' @ job_id job,
                  row_badge = getStatusBadge (job_status job)\<rparr>) (jobs s)
           \<and> completedJobs p
               = length (filter (\<lambda>job. job_status job = str ''completed'') (jobs s))
           \<and> activeJobs p
               = length (filter (\<lambda>job. job_status job = str ''processing'') (jobs s))"
  proof (intro allI impI)
    fix p assume p: "render s = Page p"
    then have nl: "\<not> loading s" by (auto simp: render_def split: if_splits)
    with ag have am: "agents s = mockAgents" by simp
    from p nl have pe: "p = \<lparr>inputValue = jobPrompt s,
         inputDisabled = isCreatingJob s,
         buttonDisabled = isCreatingJob s,
         buttonIcon = (if isCreatingJob s then Icon RefreshCw (str ''h-4 w-4 animate-spin'')
                       else Icon Play (str ''h-4 w-4'')),
         buttonLabel = (if isCreatingJob s then str ''Creating...'' else str ''Create Job''),
         totalAgents = length (agents s),
         activeJobs = length (filter (\<lambda>job. job_status job = str ''processing'') (jobs s)),
         completedJobs = length (filter (\<lambda>job. job_status job = str ''completed'') (jobs s)),
         agentRows = map agentRow (agents s),
         jobRows = map jobRow (jobs s)\<rparr>"
      by (simp add: render_def)
    have r1: "agentRows p = map (\<lambda>agent.
                 \<lparr>row_key = agent_id agent, row_icon = getStatusIcon (agent_status agent),
                  row_title = agent_name agent,
                  row_idLine = str ''ID: '' @ agent_id agent,
                  row_badge = getStatusBadge (agent_status agent)\<rparr>) (agents s)"
      by (simp add: pe agentRow_def)
    have r2: "jobRows p = map (\<lambda>job.
                 \<lparr>row_key = job_id job, row_icon = getStatusIcon (job_status job),
                  row_title = replaceFirst 95 32 (job_type job),
                  row_idLine = str ''ID: '' @ job_id job,
                  row_badge = getStatusBadge (job_status job)\<rparr>) (jobs s)"
      by (simp add: pe jobRow_def)
    have r3: "totalAgents p = 4 \<and> length (agentRows p) = 4
        \<and> agents s = agents (fetchData initial)
        \<and> length (jobRows p) = length (jobs s)
        \<and> completedJobs p
               = length (filter (\<lambda>job. job_status job = str ''completed'') (jobs s))
        \<and> activeJobs p
               = length (filter (\<lambda>job. job_status job = str ''processing'') (jobs s))"
      by (simp add: pe am mockAgents_def fetchData_def)
    from r1 r2 r3 show "totalAgents p = 4 \<and> length (agentRows p) = 4
           \<and> agents s = agents (fetchData initial)
           \<and> agentRows p = map (\<lambda>agent.
                 \<lparr>row_key = agent_id agent, row_icon = getStatusIcon (agent_status agent),
                  row_title = agent_name agent,
                  row_idLine = str ''ID: '' @ agent_id agent,
                  row_badge = getStatusBadge (agent_status agent)\<rparr>) (agents s)
           \<and> length (jobRows p) = length (jobs s)
           \<and> jobRows p = map (\<lambda>job.
                 \<lparr>row_key = job_id job, row_icon = getStatusIcon (job_status job),
                  row_title = replaceFirst 95 32 (job_type job),
                  row_idLine = str ''ID: '' @ job_id job,
                  row_badge = getStatusBadge (job_status job)\<rparr>) (jobs s)
           \<and> completedJobs p
               = length (filter (\<lambda>job. job_status job = str ''completed'') (jobs s))
           \<and> activeJobs p
               = length (filter (\<lambda>job. job_status job = str ''processing'') (jobs s))"
      by simp
  qed
  from a b c g h k d e f show ?thesis
    by (intro conjI) (assumption | simp)+
qed

theorem initial_load_witness:
  "\<exists>p. run initial [Mount] = Some (fetchData initial) \<and> render (fetchData initial) = Page p
     \<and> totalAgents p = 4 \<and> length (jobRows p) = 3 \<and> completedJobs p = 2 \<and> activeJobs p = 1
     \<and> length (filter (\<lambda>job. job_status job = str ''completed'') (jobs (fetchData initial))) = 2
     \<and> map row_idLine (agentRows p)
         = [str ''ID: mistral'', str ''ID: codellama'', str ''ID: llama'', str ''ID: research'']
     \<and> map row_title (jobRows p)
         = [str ''content creation'', str ''video generation'', str ''content creation'']
     \<and> map row_idLine (jobRows p) = [str ''ID: job_001'', str ''ID: job_002'', str ''ID: job_003'']"
proof -
  have r: "run initial [Mount] = Some (fetchData initial)"
    by (simp add: step_Mount initial_def)
  from initial_load [OF r] obtain p where p: "render (fetchData initial) = Page p"
    and n: "totalAgents p = 4" "length (jobRows p) = 3" "completedJobs p = 2" "activeJobs p = 1"
    by blast
  from initial_load [OF r] p
  have cnt: "completedJobs p
      = length (filter (\<lambda>job. job_status job = str ''completed'') (jobs (fetchData initial)))"
    by blast
  from initial_load [OF r] have "render (fetchData initial) = Page
          \<lparr>inputValue = [], inputDisabled = False, buttonDisabled = False,
           buttonIcon = Icon Play (str ''h-4 w-4''), buttonLabel = str ''Create Job'',
           totalAgents = 4, activeJobs = 1, completedJobs = 2,
           agentRows =
             [\<lparr>row_key = str ''mistral'',
                row_icon = Icon CheckCircle (str ''h-4 w-4 text-green-500''),
                row_title = str ''Mistral 7B'', row_idLine = str ''ID: mistral'',
                row_badge = Badge secondary (Some (str ''text-green-700 bg-green-100''))
                  (str ''Ready'')\<rparr>,
              \<lparr>row_key = str ''codellama'',
                row_icon = Icon CheckCircle (str ''h-4 w-4 text-green-500''),
                row_title = str ''Code Llama 13B'', row_idLine = str ''ID: codellama'',
                row_badge = Badge secondary (Some (str ''text-green-700 bg-green-100''))
                  (str ''Ready'')\<rparr>,
              \<lparr>row_key = str ''llama'',
                row_icon = Icon CheckCircle (str ''h-4 w-4 text-green-500''),
                row_title = str ''Llama 3.2 3B'', row_idLine = str ''ID: llama'',
                row_badge = Badge secondary (Some (str ''text-green-700 bg-green-100''))
                  (str ''Ready'')\<rparr>,
              \<lparr>row_key = str ''research'',
                row_icon = Icon CheckCircle (str ''h-4 w-4 text-green-500''),
                row_title = str ''Research Agent'', row_idLine = str ''ID: research'',
                row_badge = Badge secondary (Some (str ''text-green-700 bg-green-100''))
                  (str ''Ready'')\<rparr>],
           jobRows =
             [\<lparr>row_key = str ''job_001'',
                row_icon = Icon CheckCircle (str ''h-4 w-4 text-green-500''),
                row_title = str ''content creation'', row_idLine = str ''ID: job_001'',
                row_badge = Badge secondary (Some (str ''text-green-700 bg-green-100''))
                  (str ''Completed'')\<rparr>,
              \<lparr>row_key = str ''job_002'',
                row_icon = Icon Clock (str ''h-4 w-4 text-yellow-500''),
                row_title = str ''video generation'', row_idLine = str ''ID: job_002'',
                row_badge = Badge secondary (Some (str ''text-yellow-700 bg-yellow-100''))
                  (str ''Busy'')\<rparr>,
              \<lparr>row_key = str ''job_003'',
                row_icon = Icon CheckCircle (str ''h-4 w-4 text-green-500''),
                row_title = str ''content creation'', row_idLine = str ''ID: job_003'',
                row_badge = Badge secondary (Some (str ''text-green-700 bg-green-100''))
                  (str ''Completed'')\<rparr>]\<rparr>"
    by (elim conjE)
  with p have rows: "map row_idLine (agentRows p)
         = [str ''ID: mistral'', str ''ID: codellama'', str ''ID: llama'', str ''ID: research'']
     \<and> map row_title (jobRows p)
         = [str ''content creation'', str ''video generation'', str ''content creation'']
     \<and> map row_idLine (jobRows p) = [str ''ID: job_001'', str ''ID: job_002'', str ''ID: job_003'']"
    by auto
  from r p n cnt rows show ?thesis by auto
qed

text \<open>
  Claim C6. From a state the page can reach, whatever events follow (the mount effect
  with its fetch, changes, clicks, timers), every job of the earlier list is still in
  the later list, at the same distance from its end, with its identifier, its type and
  a status the lifecycle allows after the earlier one: in fact the later list is the
  earlier one with jobs added in front, so no status changes at all. In the lifecycle
  order \<open>completed\<close> and \<open>failed\<close> have nothing after them and no two distinct statuses
  are each after the other.
\<close>

theorem jobs_lifecycle:
  assumes reach: "run initial es = Some s"
    and later: "run s es' = Some s'"
  shows "continues (jobs s) (jobs s')
     \<and> (\<exists>new. jobs s' = new @ jobs s)
     \<and> (\<forall>a b. (a = str ''completed'' \<or> a = str ''failed'') \<and> lifecycleLe a b \<longrightarrow> b = a)
     \<and> (\<forall>a b. lifecycleLe a b \<and> lifecycleLe b a \<longrightarrow> a = b)"
proof -
  from reach have "settled s" by (rule reachable_settled)
  then have sf: "suffix (jobs s) (jobs s')" using later by (rule run_suffix)
  then have "continues (jobs s) (jobs s')" by (rule continues_suffix)
  moreover from sf have "\<exists>new. jobs s' = new @ jobs s" by (simp add: suffix_def)
  moreover have "\<forall>a b. (a = str ''completed'' \<or> a = str ''failed'') \<and> lifecycleLe a b \<longrightarrow> b = a"
    by (auto simp: lifecycleLe_def lifecycleNext_def)
  moreover have "\<forall>a b. lifecycleLe a b \<and> lifecycleLe b a \<longrightarrow> a = b"
    by (auto simp: lifecycleLe_def lifecycleNext_def)
  ultimately show ?thesis by blast
qed

theorem jobs_lifecycle_witness:
  "\<exists>s'. run (fetchData initial) [Change (str ''Hi''), Click, Timeout 5] = Some s'
     \<and> jobs s' = \<lparr>job_id = str ''job_5'', job_type = str ''content_creation'',
                    job_status = str ''completed''\<rparr> # mockJobs
     \<and> continues mockJobs (jobs s')"
proof -
  let ?s' = "(fetchData initial)\<lparr>alerts := [completionMessage (str ''Hi'')
        (makeMockResponse (str ''Hi'') 5)],
      jobs := \<lparr>job_id = str ''job_5'', job_type = str ''content_creation'',
                job_status = str ''completed''\<rparr> # mockJobs\<rparr>"
  have r: "run initial [Mount] = Some (fetchData initial)"
    by (simp add: step_Mount initial_def)
  have l: "run (fetchData initial) [Change (str ''Hi''), Click, Timeout 5] = Some ?s'"
    by (simp add: step_simps initial_def fetchData_def createJob_def trim_def isWhiteSpace_def
        fireTimer_def createJobCallback_eq numToString_def digits.simps)
  from jobs_lifecycle [OF r l] have "continues (jobs (fetchData initial)) (jobs ?s')"
    by blast
  then have "continues mockJobs (jobs ?s')" by (simp add: fetchData_def)
  with l show ?thesis by simp
qed

text \<open>
  Claim C7. When a timer fires at clock reading \<open>now\<close>, the job it prepends has the
  identifier \<open>job_\<close> followed by the decimal numeral of \<open>now\<close>. Jobs created at different
  clock readings have different identifiers, jobs created at the same reading have the
  same one, and the page can reach a job list with a repeated identifier (two
  submissions resolving at the same reading).
\<close>

theorem job_id_scheme:
  assumes "step s (Timeout now) = Some s'" and "step t (Timeout now') = Some t'"
  shows "jobs s' = hd (jobs s') # jobs s
     \<and> job_id (hd (jobs s')) = str ''job_'' @ numToString now
     \<and> (now \<noteq> now' \<longrightarrow> job_id (hd (jobs s')) \<noteq> job_id (hd (jobs t')))
     \<and> (now = now' \<longrightarrow> job_id (hd (jobs s')) = job_id (hd (jobs t')))
     \<and> (\<exists>u. run initial [Mount, Change (str ''a''), Click, Timeout 7,
                          Change (str ''b''), Click, Timeout 7] = Some u
            \<and> \<not> distinct (map job_id (jobs u)))"
proof -
  from assms(1) have a: "jobs s' = hd (jobs s') # jobs s"
    and ida: "job_id (hd (jobs s')) = str ''job_'' @ numToString now"
    by (auto simp: step_Timeout fireTimer_Some createJobCallback_eq)
  from assms(2) have idb: "job_id (hd (jobs t')) = str ''job_'' @ numToString now'"
    by (auto simp: step_Timeout fireTimer_Some createJobCallback_eq)
  have ne: "now \<noteq> now' \<longrightarrow> job_id (hd (jobs s')) \<noteq> job_id (hd (jobs t'))"
    using ida idb by (auto dest: numToString_inj)
  have eq: "now = now' \<longrightarrow> job_id (hd (jobs s')) = job_id (hd (jobs t'))"
    using ida idb by simp
  have dup: "\<exists>u. run initial [Mount, Change (str ''a''), Click, Timeout 7,
                          Change (str ''b''), Click, Timeout 7] = Some u
            \<and> \<not> distinct (map job_id (jobs u))"
    by (simp add: step_simps initial_def fetchData_def createJob_def trim_def isWhiteSpace_def
        fireTimer_def createJobCallback_eq)
  from a ida ne eq dup show ?thesis by blast
qed

theorem job_id_scheme_witness:
  "\<exists>s s' t'. run initial [Mount, Change (str ''Hi''), Click] = Some s
     \<and> step s (Timeout 1758400000000) = Some s'
     \<and> step s (Timeout 1758400002000) = Some t'
     \<and> job_id (hd (jobs s')) = str ''job_1758400000000''
     \<and> job_id (hd (jobs s')) \<noteq> job_id (hd (jobs t'))"
proof -
  let ?s = "(fetchData initial)\<lparr>jobPrompt := str ''Hi'', isCreatingJob := True,
     timers := [str ''Hi'']\<rparr>"
  have r: "run initial [Mount, Change (str ''Hi''), Click] = Some ?s"
    by (simp add: step_simps initial_def fetchData_def createJob_def trim_def isWhiteSpace_def)
  obtain s' where a: "step ?s (Timeout 1758400000000) = Some s'"
    by (simp add: step_Timeout fireTimer_def)
  obtain t' where b: "step ?s (Timeout 1758400002000) = Some t'"
    by (simp add: step_Timeout fireTimer_def)
  have n: "numToString 1758400000000 = str ''1758400000000''"
    by (simp add: numToString_def digits.simps)
  have "(1758400000000::int) \<noteq> 1758400002000" by simp
  with job_id_scheme [OF a b]
  have d: "job_id (hd (jobs s')) \<noteq> job_id (hd (jobs t'))"
    and i: "job_id (hd (jobs s')) = str ''job_'' @ numToString 1758400000000"
    by blast+
  from i n have "job_id (hd (jobs s')) = str ''job_1758400000000''" by simp
  with r a b d show ?thesis by blast
qed

text \<open>
  Claim C8. The projections give \<open>busy\<close> and \<open>processing\<close> the same icon and the same
  badge, \<open>error\<close> and \<open>failed\<close> the same icon and the same badge, and \<open>ready\<close> and
  \<open>completed\<close> the same icon.
\<close>

theorem status_aliases:
  "getStatusIcon (str ''busy'') = getStatusIcon (str ''processing'')
   \<and> getStatusIcon (str ''error'') = getStatusIcon (str ''failed'')
   \<and> getStatusIcon (str ''ready'') = getStatusIcon (str ''completed'')
   \<and> getStatusBadge (str ''busy'') = getStatusBadge (str ''processing'')
   \<and> getStatusBadge (str ''error'') = getStatusBadge (str ''failed'')"
  by (simp add: getStatusBadge_def getStatusIcon_def)

text \<open>
  Claim C9. \<open>created\<close> falls to the \<open>default\<close> branch of both projections: the outline
  badge whose text is the status string, and the gray refresh icon. Every string that
  matches no case label gets the same icon and a badge of the same shape.
\<close>

theorem created_is_fallback:
  "getStatusBadge (str ''created'') = Badge outline None (str ''created'')
   \<and> getStatusIcon (str ''created'') = Icon RefreshCw (str ''h-4 w-4 text-gray-500'')
   \<and> (status \<notin> {str ''ready'', str ''busy'', str ''processing'', str ''error'',
                   str ''failed'', str ''completed''}
        \<longrightarrow> getStatusBadge status = Badge outline None status
          \<and> getStatusIcon status = getStatusIcon (str ''created''))"
  by (simp add: getStatusBadge_def getStatusIcon_def)

theorem created_is_fallback_witness:
  "getStatusBadge (str ''no such status'') = Badge outline None (str ''no such status'')
   \<and> getStatusIcon (str ''no such status'') = getStatusIcon (str ''created'')"
proof -
  have h: "str ''no such status'' \<notin> {str ''ready'', str ''busy'', str ''processing'',
      str ''error'', str ''failed'', str ''completed''}"
    by simp
  from created_is_fallback [of "str ''no such status''"] h show ?thesis
    by blast
qed

text \<open>
  Claim C10. When a pending timer fires, the state after is the state before with one
  job put in front of the job list, the prompt emptied and the guard flag cleared;
  besides that, the callback shows its alert and the timer leaves the pending list.
  The agents, the loading flag and every job already in the list are as before.
\<close>

theorem resolve_frame:
  assumes "step s (Timeout now) = Some s'"
  shows "\<exists>prompt rest newJob.
       timers s = prompt # rest
       \<and> newJob = \<lparr>job_id = str ''job_'' @ numToString now,
                    job_type = str ''content_creation'', job_status = str ''completed''\<rparr>
       \<and> s' = s\<lparr>jobs := newJob # jobs s, jobPrompt := [], isCreatingJob := False,
                 alerts := alerts s @ [completionMessage prompt (makeMockResponse prompt now)],
                 timers := rest\<rparr>
       \<and> jobs s' = newJob # jobs s \<and> drop 1 (jobs s') = jobs s
       \<and> jobPrompt s' = [] \<and> \<not> isCreatingJob s'
       \<and> agents s' = agents s \<and> loading s' = loading s"
  using assms by (auto simp: step_Timeout fireTimer_Some createJobCallback_eq)

theorem resolve_frame_witness:
  "step ((fetchData initial)\<lparr>jobPrompt := str ''Hi'', isCreatingJob := True,
           timers := [str ''Hi'']\<rparr>) (Timeout 5)
     = Some ((fetchData initial)
         \<lparr>jobs := \<lparr>job_id = str ''job_5'', job_type = str ''content_creation'',
                     job_status = str ''completed''\<rparr> # mockJobs,
           alerts := [completionMessage (str ''Hi'') (makeMockResponse (str ''Hi'') 5)]\<rparr>)"
proof -
  let ?s = "(fetchData initial)\<lparr>jobPrompt := str ''Hi'', isCreatingJob := True,
           timers := [str ''Hi'']\<rparr>"
  obtain s' where a: "step ?s (Timeout 5) = Some s'"
    by (simp add: step_Timeout fireTimer_def)
  have n: "numToString 5 = str ''5''"
    by (simp add: numToString_def digits.simps)
  from resolve_frame [OF a] n
  have "s' = (fetchData initial)
         \<lparr>jobs := \<lparr>job_id = str ''job_5'', job_type = str ''content_creation'',
                     job_status = str ''completed''\<rparr> # mockJobs,
           alerts := [completionMessage (str ''Hi'') (makeMockResponse (str ''Hi'') 5)]\<rparr>"
    by (auto simp: fetchData_def initial_def)
  with a show ?thesis by simp
qed

end
